theory Spec2Isabelle
  imports Main
begin

section \<open>Python values used by the honeypot\<close>

text \<open>
  A Python \<open>str\<close> and a Python \<open>bytes\<close> are both modelled as \<open>string\<close> (a list of
  \<open>char\<close>). A \<open>dict\<close> with string keys is an association list in insertion order;
  \<open>d.get(k, default)\<close> is \<open>dict_get\<close> and \<open>d[k] = v\<close> is \<open>dict_set\<close> (an existing
  key keeps its position, a new key goes to the end, as in Python). An
  \<open>Optional[str]\<close> is a \<open>string option\<close>; Python's truth test on it (\<open>if payload:\<close>) is
  \<open>truthy\<close>: \<open>None\<close> and the empty string are false.
\<close>

type_synonym 'v dict = "(string \<times> 'v) list"

definition dict_get :: "'v dict \<Rightarrow> string \<Rightarrow> 'v \<Rightarrow> 'v" where
  "dict_get d k dflt = (case map_of d k of None \<Rightarrow> dflt | Some v \<Rightarrow> v)"

fun dict_set :: "'v dict \<Rightarrow> string \<Rightarrow> 'v \<Rightarrow> 'v dict" where
  "dict_set [] k v = [(k, v)]"
| "dict_set ((k', v') # d) k v = (if k' = k then (k, v) # d else (k', v') # dict_set d k v)"

fun truthy :: "string option \<Rightarrow> bool" where
  "truthy None = False"
| "truthy (Some s) = (s \<noteq> [])"

text \<open>\<open>str.lower()\<close> and \<open>str.upper()\<close> on the ASCII letters; other characters are kept.\<close>

definition lower_char :: "char \<Rightarrow> char" where
  "lower_char c =
     (let n = (of_char c :: nat) in if 65 \<le> n \<and> n \<le> 90 then char_of (n + 32) else c)"


definition lower :: "string \<Rightarrow> string" where
  "lower s = map lower_char s"


text \<open>\<open>s.startswith(p)\<close>, \<open>s.endswith(p)\<close> and the substring test \<open>p in s\<close>.\<close>

fun startswith :: "string \<Rightarrow> string \<Rightarrow> bool" where
  "startswith s [] = True"
| "startswith [] (p # ps) = False"
| "startswith (c # cs) (p # ps) = (c = p \<and> startswith cs ps)"

definition endswith :: "string \<Rightarrow> string \<Rightarrow> bool" where
  "endswith s p = startswith (rev s) (rev p)"

fun contains :: "string \<Rightarrow> string \<Rightarrow> bool" where
  "contains p [] = (p = [])"
| "contains p (c # cs) = (startswith (c # cs) p \<or> contains p cs)"

section \<open>detectors/fingerprint.py\<close>

subsection \<open>\<open>detect_tool\<close>\<close>

text \<open>
  The dictionary \<open>scanner_signatures\<close> in its insertion order, which is the order in which
  \<open>.items()\<close> iterates.
\<close>

definition scanner_signatures :: "(string \<times> string list) list" where
  "scanner_signatures =
     [(''sqlmap'', [''sqlmap'']),
      (''nikto'', [''nikto'']),
      (''nmap'', [''nmap'', ''libwww-perl'', ''python-requests'']),
      (''w3af'', [''w3af'']),
      (''acunetix'', [''acunetix'']),
      (''nessus'', [''nessus''])]"

text \<open>
  The nested loop \<open>for tool, patterns in ...: for pat in patterns: if pat in ua: return tool\<close>.
  \<open>None\<close> means that both loops ran to their end.
\<close>

fun match_patterns :: "string list \<Rightarrow> string \<Rightarrow> bool" where
  "match_patterns [] ua = False"
| "match_patterns (pat # patterns) ua = (if contains pat ua then True else match_patterns patterns ua)"

fun match_signatures :: "(string \<times> string list) list \<Rightarrow> string \<Rightarrow> string option" where
  "match_signatures [] ua = None"
| "match_signatures ((tool, patterns) # rest) ua =
     (if match_patterns patterns ua then Some tool else match_signatures rest ua)"

definition path_rule :: "string option \<Rightarrow> string option" where
  "path_rule path =
     (case path of
        None \<Rightarrow> None
      | Some p \<Rightarrow>
          if p = [] then None
          else let lower_path = lower p in
            if contains ''wp-login'' lower_path \<or> contains ''wp-admin'' lower_path
              then Some ''wordpress_scanner''
            else if contains ''phpmyadmin'' lower_path then Some ''phpmyadmin_scanner''
            else if contains ''/etc/passwd'' lower_path then Some ''file_inclusion''
            else None)"

definition sql_keywords :: "string list" where
  "sql_keywords = [''select'', ''union'', ''sleep'', ''benchmark'', ''load_file'', ''into outfile'']"

definition payload_rule :: "string option \<Rightarrow> string option" where
  "payload_rule payload =
     (case payload of
        None \<Rightarrow> None
      | Some p \<Rightarrow>
          if p = [] then None
          else let lower_payload = lower p in
            if list_ex (\<lambda>kw. contains kw lower_payload) sql_keywords then Some ''sql_injection''
            else None)"

definition detect_tool ::
  "string dict \<Rightarrow> string option \<Rightarrow> string option \<Rightarrow> string \<Rightarrow> string option" where
  "detect_tool headers payload path request_type =
     (let ua0 = (if headers \<noteq> [] then lower (dict_get headers ''User-Agent'' '''') else '''');
          ua = (case payload of
                  Some p \<Rightarrow> if ua0 = [] \<and> p \<noteq> [] then lower p else ua0
                | None \<Rightarrow> ua0)
      in case match_signatures scanner_signatures ua of
           Some tool \<Rightarrow> Some tool
         | None \<Rightarrow>
             (case path_rule path of
                Some tool \<Rightarrow> Some tool
              | None \<Rightarrow> payload_rule payload))"

text \<open>
  The rules as the specification words them, for comparison with \<open>detect_tool\<close>: the
  fixed table as a chain of tests on one lower-cased text, the User-Agent value first,
  the payload only when there is no User-Agent value, then the path, then the SQL
  keywords. "Present" is Python's truth test: a value that is there and not empty.
\<close>

definition signature_table :: "string \<Rightarrow> string option" where
  "signature_table s =
     (if contains ''sqlmap'' s then Some ''sqlmap''
      else if contains ''nikto'' s then Some ''nikto''
      else if contains ''nmap'' s \<or> contains ''libwww-perl'' s \<or> contains ''python-requests'' s
        then Some ''nmap''
      else if contains ''w3af'' s then Some ''w3af''
      else if contains ''acunetix'' s then Some ''acunetix''
      else if contains ''nessus'' s then Some ''nessus''
      else None)"

definition later_rules :: "string option \<Rightarrow> string option \<Rightarrow> string option" where
  "later_rules payload path =
     (if truthy path \<and> (contains ''wp-login'' (lower (the path)) \<or> contains ''wp-admin'' (lower (the path)))
        then Some ''wordpress_scanner''
      else if truthy path \<and> contains ''phpmyadmin'' (lower (the path)) then Some ''phpmyadmin_scanner''
      else if truthy path \<and> contains ''/etc/passwd'' (lower (the path)) then Some ''file_inclusion''
      else if truthy payload \<and>
              (contains ''select'' (lower (the payload)) \<or> contains ''union'' (lower (the payload)) \<or>
               contains ''sleep'' (lower (the payload)) \<or> contains ''benchmark'' (lower (the payload)) \<or>
               contains ''load_file'' (lower (the payload)) \<or> contains ''into outfile'' (lower (the payload)))
        then Some ''sql_injection''
      else None)"

definition detect_tool_spec :: "string dict \<Rightarrow> string option \<Rightarrow> string option \<Rightarrow> string option" where
  "detect_tool_spec headers payload path =
     (let user_agent = dict_get headers ''User-Agent'' '''' in
      if user_agent \<noteq> [] then
        (case signature_table (lower user_agent) of
           Some tool \<Rightarrow> Some tool
         | None \<Rightarrow> later_rules payload path)
      else if truthy payload then
        (case signature_table (lower (the payload)) of
           Some tool \<Rightarrow> Some tool
         | None \<Rightarrow> later_rules payload path)
      else later_rules payload path)"

subsection \<open>\<open>classify_client\<close>\<close>

text \<open>
  An entry of a client's history is a dictionary; the handler stores
  \<open>{"timestamp": ts}\<close>. Reading \<open>event["timestamp"]\<close> from an entry without that key
  raises \<open>KeyError\<close>, and the list comprehension that does so stands before the \<open>try\<close>.
\<close>

datatype py_error = KeyError | StorageError

text \<open>
  \<open>datetime.fromisoformat\<close> is a parameter of the model (\<open>None\<close> when it raises). A
  parsed time is its position on the time line in microseconds, for a naive value the
  wall-clock reading and for an aware one the UTC instant. Python refuses to compare
  or subtract a naive and an aware value (\<open>TypeError\<close>).
\<close>

datatype datetime = Naive int | Aware int

fun dt_lt :: "datetime \<Rightarrow> datetime \<Rightarrow> bool option" where
  "dt_lt (Naive a) (Naive b) = Some (a < b)"
| "dt_lt (Aware a) (Aware b) = Some (a < b)"
| "dt_lt (Naive a) (Aware b) = None"
| "dt_lt (Aware a) (Naive b) = None"

fun dt_sub :: "datetime \<Rightarrow> datetime \<Rightarrow> int option" where
  "dt_sub (Naive a) (Naive b) = Some (a - b)"
| "dt_sub (Aware a) (Aware b) = Some (a - b)"
| "dt_sub (Naive a) (Aware b) = None"
| "dt_sub (Aware a) (Naive b) = None"

text \<open>
  The built-ins \<open>max\<close> and \<open>min\<close>: the first item, replaced by each later item that is
  greater (smaller); \<open>None\<close> when a comparison raises or the list is empty.
\<close>

fun max_loop :: "datetime \<Rightarrow> datetime list \<Rightarrow> datetime option" where
  "max_loop m [] = Some m"
| "max_loop m (x # xs) =
     (case dt_lt m x of None \<Rightarrow> None | Some b \<Rightarrow> max_loop (if b then x else m) xs)"

fun min_loop :: "datetime \<Rightarrow> datetime list \<Rightarrow> datetime option" where
  "min_loop m [] = Some m"
| "min_loop m (x # xs) =
     (case dt_lt x m of None \<Rightarrow> None | Some b \<Rightarrow> min_loop (if b then x else m) xs)"

fun py_max :: "datetime list \<Rightarrow> datetime option" where
  "py_max [] = None"
| "py_max (x # xs) = max_loop x xs"

fun py_min :: "datetime list \<Rightarrow> datetime option" where
  "py_min [] = None"
| "py_min (x # xs) = min_loop x xs"

text \<open>\<open>history[-5:]\<close>\<close>

definition last5 :: "'a list \<Rightarrow> 'a list" where
  "last5 history = drop (length history - 5) history"

fun timestamps_of :: "string dict list \<Rightarrow> py_error + string list" where
  "timestamps_of [] = Inr []"
| "timestamps_of (event # rest) =
     (case map_of event ''timestamp'' of
        None \<Rightarrow> Inl KeyError
      | Some t \<Rightarrow> (case timestamps_of rest of Inl e \<Rightarrow> Inl e | Inr ts \<Rightarrow> Inr (t # ts)))"

text \<open>
  The body of the \<open>try\<close>: \<open>Some True\<close> when it reaches \<open>return "bot"\<close>, \<open>Some False\<close>
  when the test is false, \<open>None\<close> when anything in it raises. \<open>total_seconds() < 2\<close> is
  read on the exact microseconds of the difference.
\<close>

definition within_two_seconds :: "(string \<Rightarrow> datetime option) \<Rightarrow> string list \<Rightarrow> bool option" where
  "within_two_seconds fromisoformat timestamps =
     (case those (map fromisoformat timestamps) of
        None \<Rightarrow> None
      | Some tms \<Rightarrow>
          (case py_max tms of
             None \<Rightarrow> None
           | Some hi \<Rightarrow>
               (case py_min tms of
                  None \<Rightarrow> None
                | Some lo \<Rightarrow>
                    (case dt_sub hi lo of
                       None \<Rightarrow> None
                     | Some d \<Rightarrow> Some (d < 2000000)))))"

definition classify_client ::
  "(string \<Rightarrow> datetime option) \<Rightarrow> string dict list \<Rightarrow> string option \<Rightarrow> py_error + string" where
  "classify_client fromisoformat history current_tool =
     (if truthy current_tool then Inr ''scanner''
      else if 5 \<le> length history then
        (case timestamps_of (last5 history) of
           Inl e \<Rightarrow> Inl e
         | Inr timestamps \<Rightarrow>
             (case within_two_seconds fromisoformat timestamps of
                Some True \<Rightarrow> Inr ''bot''
              | _ \<Rightarrow> Inr ''human''))
      else Inr ''human'')"

text \<open>
  The timing rule as the specification words it: the five timestamps all parse, they can
  be compared with each other (all naive or all aware), and the span between the
  earliest and the latest is below two seconds.
\<close>

fun instant :: "datetime \<Rightarrow> int" where
  "instant (Naive a) = a"
| "instant (Aware a) = a"

fun is_naive :: "datetime \<Rightarrow> bool" where
  "is_naive (Naive a) = True"
| "is_naive (Aware a) = False"

definition comparable :: "datetime list \<Rightarrow> bool" where
  "comparable ts = (list_all is_naive ts \<or> list_all (\<lambda>t. \<not> is_naive t) ts)"

definition span_micros :: "datetime list \<Rightarrow> int" where
  "span_micros ts = Max (set (map instant ts)) - Min (set (map instant ts))"

definition rapid :: "(string \<Rightarrow> datetime option) \<Rightarrow> string list \<Rightarrow> bool" where
  "rapid fromisoformat stamps =
     (list_all (\<lambda>t. fromisoformat t \<noteq> None) stamps \<and>
      comparable (map (the \<circ> fromisoformat) stamps) \<and>
      span_micros (map (the \<circ> fromisoformat) stamps) < 2000000)"

definition retag :: "datetime \<Rightarrow> int \<Rightarrow> datetime" where
  "retag m v = (if is_naive m then Naive v else Aware v)"

text \<open>
  A stand-in for \<open>datetime.fromisoformat\<close> on the timestamps used in the examples: the
  microseconds after 2024-01-01T00:00:00.
\<close>

definition example_clock :: "string \<Rightarrow> datetime option" where
  "example_clock = map_of
     [(''2024-01-01T00:00:00'', Naive 0),
      (''2024-01-01T00:00:00.400000'', Naive 400000),
      (''2024-01-01T00:00:00.800000'', Naive 800000),
      (''2024-01-01T00:00:01.200000'', Naive 1200000),
      (''2024-01-01T00:00:01.999999'', Naive 1999999),
      (''2024-01-01T00:00:02'', Naive 2000000),
      (''2024-01-01T00:00:01+00:00'', Aware 1000000)]"

definition stamp :: "string \<Rightarrow> string dict" where
  "stamp ts = [(''timestamp'', ts)]"

definition rapid_stamps :: "string list" where
  "rapid_stamps =
     [''2024-01-01T00:00:00'', ''2024-01-01T00:00:00.400000'', ''2024-01-01T00:00:00.800000'',
      ''2024-01-01T00:00:01.200000'', ''2024-01-01T00:00:01.999999'']"

definition slow_stamps :: "string list" where
  "slow_stamps =
     [''2024-01-01T00:00:00'', ''2024-01-01T00:00:00.400000'', ''2024-01-01T00:00:00.800000'',
      ''2024-01-01T00:00:01.200000'', ''2024-01-01T00:00:02'']"

definition garbled_stamps :: "string list" where
  "garbled_stamps =
     [''2024-01-01T00:00:00'', ''2024-01-01T00:00:00.400000'', ''yesterday'',
      ''2024-01-01T00:00:01.200000'', ''2024-01-01T00:00:01.999999'']"

section \<open>honeypot_core/logger.py\<close>

text \<open>
  A JSON value. \<open>json.dumps\<close> and \<open>json.loads\<close> are parameters of the model (\<open>dumps\<close>,
  and \<open>loads\<close> with \<open>None\<close> when it raises). The header dictionary of strings and
  the metadata dictionary are the JSON objects \<open>headers_json\<close> and \<open>JDict\<close>.
\<close>

datatype json =
    JNull
  | JBool bool
  | JInt int
  | JStr string
  | JList "json list"
  | JDict "(string \<times> json) list"

definition headers_json :: "string dict \<Rightarrow> json" where
  "headers_json h = JDict (map (\<lambda>(k, v). (k, JStr v)) h)"

text \<open>
  The eleven entries of an event dictionary. The type parameters are the types of
  \<open>headers\<close> and \<open>meta\<close>: dictionaries in the in-memory list, JSON text in a row of
  the table, parsed JSON in a query result. A row of the table \<open>events\<close> and a query
  result carry the \<open>id\<close> column as well.
\<close>

record ('h, 'm) event =
  ev_timestamp :: string
  ev_service :: string
  ev_ip :: string
  ev_port :: int
  ev_request_type :: string
  ev_path :: "string option"
  ev_payload :: "string option"
  ev_headers :: 'h
  ev_tool :: "string option"
  ev_classification :: "string option"
  ev_meta :: 'm

record ('h, 'm) row = "('h, 'm) event" +
  row_id :: int

text \<open>
  The state of an \<open>EventLogger\<close>: the list \<open>self.events\<close>, the rows of the table in
  insertion order, and the counter that \<open>AUTOINCREMENT\<close> keeps (the largest \<open>id\<close> ever
  given out; the next row gets one more).
\<close>

record logger =
  lg_events :: "(string dict, json dict) event list"
  lg_table :: "(string, string) row list"
  lg_sequence :: int


text \<open>
  \<open>log_event\<close>. \<open>now\<close> is the reading of \<open>datetime.utcnow().isoformat()\<close> and \<open>db_ok\<close>
  tells whether the \<open>INSERT\<close> and its commit go through; when they do not, sqlite3
  raises, nothing catches it inside \<open>log_event\<close>, and the state at that moment is the
  state the caller is left with.
\<close>

definition log_event ::
  "(json \<Rightarrow> string) \<Rightarrow> string \<Rightarrow> bool \<Rightarrow>
   string \<Rightarrow> string \<Rightarrow> int \<Rightarrow> string \<Rightarrow> string option \<Rightarrow> string option \<Rightarrow>
   string dict option \<Rightarrow> string option \<Rightarrow> string option \<Rightarrow> json dict option \<Rightarrow>
   logger \<Rightarrow> (py_error + unit) \<times> logger" where
  "log_event dumps now db_ok service ip port request_type path payload headers tool classification meta lg =
     (let event = \<lparr>ev_timestamp = now, ev_service = service, ev_ip = ip, ev_port = port,
                    ev_request_type = request_type, ev_path = path, ev_payload = payload,
                    ev_headers = (case headers of None \<Rightarrow> [] | Some h \<Rightarrow> h),
                    ev_tool = tool, ev_classification = classification,
                    ev_meta = (case meta of None \<Rightarrow> [] | Some m \<Rightarrow> m)\<rparr>;
          lg1 = lg\<lparr>lg_events := lg_events lg @ [event]\<rparr>
      in if db_ok then
           (Inr (),
            lg1\<lparr>lg_table := lg_table lg1 @
                   [\<lparr>ev_timestamp = ev_timestamp event, ev_service = service, ev_ip = ip,
                     ev_port = port, ev_request_type = request_type, ev_path = path,
                     ev_payload = payload, ev_headers = dumps (headers_json (ev_headers event)),
                     ev_tool = tool, ev_classification = classification,
                     ev_meta = dumps (JDict (ev_meta event)),
                     row_id = lg_sequence lg1 + 1\<rparr>],
                 lg_sequence := lg_sequence lg1 + 1\<rparr>)
         else (Inl StorageError, lg1))"





















section \<open>Streams and text, as the handlers use them\<close>

text \<open>
  The reader of a connection is the bytes the client sends before it closes. \<open>readline\<close>
  returns the bytes up to and including the next line feed, or what is left when there
  is none; the empty result is end of file. \<open>readexactly\<close> raises (\<open>None\<close>) on a
  negative size and on a stream that ends early, which it then has consumed.
\<close>

fun readline :: "string \<Rightarrow> string \<times> string" where
  "readline [] = ([], [])"
| "readline (c # cs) =
     (if c = CHR 0x0A then ([c], cs)
      else (case readline cs of (line, rest) \<Rightarrow> (c # line, rest)))"

definition readexactly :: "int \<Rightarrow> string \<Rightarrow> string option \<times> string" where
  "readexactly n reader =
     (if n < 0 then (None, reader)
      else if length reader < nat n then (None, [])
      else (Some (take (nat n) reader), drop (nat n) reader))"

text \<open>
  The writer of a connection: the chunks written so far and whether it was closed.
\<close>

record writer =
  w_out :: "string list"
  w_closed :: bool

definition new_writer :: writer where
  "new_writer = \<lparr>w_out = [], w_closed = False\<rparr>"

definition writer_write :: "string \<Rightarrow> writer \<Rightarrow> writer" where
  "writer_write chunk w = w\<lparr>w_out := w_out w @ [chunk]\<rparr>"

definition writer_close :: "writer \<Rightarrow> writer" where
  "writer_close w = w\<lparr>w_closed := True\<rparr>"

definition CRLF :: string where
  "CRLF = [CHR 0x0D, CHR 0x0A]"

text \<open>
  \<open>str.strip()\<close> and \<open>str.split()\<close> work on white space (the code points below 256 that
  Python counts as such), \<open>s.split(sep, 1)\<close> cuts at the first separator, and
  \<open>line.strip(b"\r\n")\<close> removes carriage returns and line feeds at both ends.
\<close>

definition is_space :: "char \<Rightarrow> bool" where
  "is_space c = ((of_char c :: nat) \<in> set [9, 10, 11, 12, 13, 28, 29, 30, 31, 32, 133, 160])"

definition strip :: "string \<Rightarrow> string" where
  "strip s = rev (dropWhile is_space (rev (dropWhile is_space s)))"

fun split_words :: "string \<Rightarrow> string \<Rightarrow> string list" where
  "split_words [] word = (if word = [] then [] else [rev word])"
| "split_words (c # cs) word =
     (if is_space c then (if word = [] then split_words cs [] else rev word # split_words cs [])
      else split_words cs (c # word))"

definition split :: "string \<Rightarrow> string list" where
  "split s = split_words s []"

definition split_once :: "char \<Rightarrow> string \<Rightarrow> string list" where
  "split_once sep s =
     (if sep \<in> set s then [takeWhile (\<lambda>c. c \<noteq> sep) s, tl (dropWhile (\<lambda>c. c \<noteq> sep) s)]
      else [s])"


fun show_nat :: "nat \<Rightarrow> string" where
  "show_nat n =
     (if n < 10 then [char_of (48 + n)] else show_nat (n div 10) @ [char_of (48 + n mod 10)])"

declare show_nat.simps [simp del]

text \<open>
  What a session takes from outside the repository: the codecs of the standard
  library (\<open>bytes.decode()\<close> with \<open>None\<close> when it raises, \<open>decode(errors="replace")\<close>,
  \<open>str.encode()\<close>, \<open>int()\<close>, \<open>datetime.fromisoformat\<close>, \<open>json.dumps\<close>), the successive
  readings of \<open>datetime.utcnow().isoformat()\<close>, whether each successive insert into the
  database goes through, and the successive picks of \<open>random.choice\<close> (an index, taken
  modulo the length of the list).
\<close>

record env =
  env_decode :: "string \<Rightarrow> string option"
  env_decode_replace :: "string \<Rightarrow> string"
  env_encode :: "string \<Rightarrow> string"
  env_int :: "string \<Rightarrow> int option"
  env_fromisoformat :: "string \<Rightarrow> datetime option"
  env_dumps :: "json \<Rightarrow> string"
  env_utcnow :: "nat \<Rightarrow> string"
  env_db_ok :: "nat \<Rightarrow> bool"
  env_choice :: "nat \<Rightarrow> nat"

definition random_choice :: "env \<Rightarrow> nat \<Rightarrow> 'a list \<Rightarrow> 'a" where
  "random_choice e k xs = xs ! (env_choice e k mod length xs)"

lemma readline_le: "length (snd (readline r)) \<le> length r"
  by (induction r) (auto split: prod.splits)

lemma readline_shorter: "fst (readline r) \<noteq> [] \<Longrightarrow> length (snd (readline r)) < length r"
proof (cases r)
  case Nil
  assume "fst (readline r) \<noteq> []"
  with Nil show ?thesis by simp
next
  case (Cons c cs)
  have "length (snd (readline cs)) \<le> length cs" by (rule readline_le)
  then show ?thesis using Cons by (auto split: prod.splits)
qed

section \<open>honeypot_core/http_honeypot.py\<close>

text \<open>
  The header loop of \<open>_read_http_request\<close>: it ends at end of file or at a line that is
  empty after stripping; a line with a colon sets \<open>headers[key.strip()] = value.strip()\<close>,
  any other line is passed over.
\<close>

function read_headers :: "env \<Rightarrow> string \<Rightarrow> string dict \<Rightarrow> string dict \<times> string" where
  "read_headers e reader headers =
     (let header_line = fst (readline reader); rest = snd (readline reader) in
      if header_line = [] then (headers, rest)
      else let header_str = strip (env_decode_replace e header_line) in
        if header_str = [] then (headers, rest)
        else if CHR '':'' \<in> set header_str then
          let parts = split_once CHR '':'' header_str
          in read_headers e rest (dict_set headers (strip (parts ! 0)) (strip (parts ! 1)))
        else read_headers e rest headers)"
  by pat_completeness auto
termination
  by (relation "measure (\<lambda>(e, reader, headers). length reader)") (auto simp: readline_shorter)

declare read_headers.simps [simp del]

text \<open>
  The body: read only when \<open>Content-Length\<close> is there and not empty; \<open>int()\<close>,
  \<open>readexactly\<close> and the decoding stand in one \<open>try\<close> whose handler sets the body to
  \<open>None\<close>.
\<close>

definition read_body :: "env \<Rightarrow> string dict \<Rightarrow> string \<Rightarrow> string option \<times> string" where
  "read_body e headers reader =
     (case map_of headers ''Content-Length'' of
        None \<Rightarrow> (None, reader)
      | Some content_length \<Rightarrow>
          if content_length = [] then (None, reader)
          else
            (case env_int e content_length of
               None \<Rightarrow> (None, reader)
             | Some n \<Rightarrow>
                 (case fst (readexactly n reader) of
                    None \<Rightarrow> (None, snd (readexactly n reader))
                  | Some body_bytes \<Rightarrow>
                      (Some (env_decode_replace e body_bytes), snd (readexactly n reader)))))"

text \<open>
  \<open>_read_http_request\<close>: \<open>None\<close> at end of file, on a request line that does not
  decode, and on one with fewer than two parts; otherwise method, path, headers and
  body. The second component is what is left of the stream.
\<close>

definition read_http_request ::
  "env \<Rightarrow> string \<Rightarrow> (string \<times> string \<times> string dict \<times> string option) option \<times> string" where
  "read_http_request e reader =
     (let line = fst (readline reader); r1 = snd (readline reader) in
      if line = [] then (None, r1)
      else
        (case env_decode e line of
           None \<Rightarrow> (None, r1)
         | Some text \<Rightarrow>
             let parts = split (strip text) in
             if length parts < 2 then (None, r1)
             else
               let method = parts ! 0;
                   path = parts ! 1;
                   headers = fst (read_headers e r1 []);
                   r2 = snd (read_headers e r1 []);
                   body = fst (read_body e headers r2);
                   r3 = snd (read_body e headers r2)
               in (Some (method, path, headers, body), r3)))"

text \<open>
  \<open>_generate_response_body\<close>, with the number of random picks it made (the generic
  pages take one).
\<close>

definition generate_response_body :: "env \<Rightarrow> string \<Rightarrow> string option \<Rightarrow> string \<times> nat" where
  "generate_response_body e path detected_tool =
     (let lower_path = lower path in
      if contains ''wp-login'' lower_path \<or> contains ''wp-admin'' lower_path then
        (''<html><body><h1>WordPress Login</h1>'' @
         ''<form><label>Username</label><input type='text' name='log' />'' @
         ''<label>Password</label><input type='password' name='pwd' />'' @
         ''<input type='submit' value='Log In' /></form>'' @
         ''</body></html>'', 0)
      else if contains ''phpmyadmin'' lower_path then
        (''<html><body><h1>phpMyAdmin</h1>'' @
         ''<form><label>Username</label><input type='text' name='pma_username' />'' @
         ''<label>Password</label><input type='password' name='pma_password' />'' @
         ''<input type='submit' value='Go' /></form>'' @
         ''</body></html>'', 0)
      else if endswith lower_path ''/.env'' then
        (''APP_KEY=base64:psJxQ0ZkVJ9K8lkz2YoKZm'' @ [CHR 0x0A] @ ''DB_PASSWORD=secret'', 0)
      else if endswith lower_path ''config.php'' \<or> endswith lower_path ''config.inc.php'' then
        (''<?php'' @ [CHR 0x0A] @ ''$db_host='localhost';'' @ [CHR 0x0A] @
         ''$db_user='root';'' @ [CHR 0x0A] @ ''$db_pass='password';'' @ [CHR 0x0A] @ ''?>'', 0)
      else if detected_tool = Some ''sqlmap'' then
        (''<html><body><h1>Products</h1><p>Product ID: 1</p><p>Name: Widget</p>'' @
         ''<form action='' @ [CHR 0x27, CHR 0x27] @
         '' method='post'><input name='id' /><input type='submit' value='Submit' /></form>'' @
         ''<!-- SQL Injection hint -->'' @
         ''</body></html>'', 0)
      else if detected_tool = Some ''nikto'' then
        (''<html><body><h1>Administration</h1><p>This area is restricted.</p>'' @
         ''<a href='/admin.php'>Admin</a>'' @
         ''</body></html>'', 0)
      else if detected_tool = Some ''nmap'' then
        (''<html><body><h1>Welcome</h1><p>Hello there!</p></body></html>'', 0)
      else
        (''<html><body>'' @
         random_choice e 0
           [''<h1>Welcome to our site!</h1><p>Under construction...</p>'',
            ''<h1>Shop</h1><p>Out of stock.</p>'',
            ''<h1>Blog</h1><p>No posts yet.</p>'',
            ''<h1>404 Not Found</h1><p>The requested resource could not be found.</p>''] @
         ''</body></html>'', 1))"

definition random_server_header :: "env \<Rightarrow> nat \<Rightarrow> string" where
  "random_server_header e k =
     random_choice e k
       [''Apache/2.4.29 (Ubuntu)'', ''nginx/1.14.0 (Ubuntu)'', ''lighttpd/1.4.45'',
        ''Microsoft-IIS/10.0'', ''gunicorn/20.1.0'', ''AmazonS3'']"

text \<open>\<open>_send_response\<close>; \<open>k\<close> counts the random picks made before it.\<close>

definition send_response :: "env \<Rightarrow> nat \<Rightarrow> string \<Rightarrow> string dict \<Rightarrow> writer \<Rightarrow> writer" where
  "send_response e k body request_headers w =
     (let server_header = random_server_header e k;
          powered_by = random_choice e (k + 1)
            [''PHP/7.3.11'', ''ASP.NET'', ''Express'', ''Django'', ''Werkzeug/2.0.1'', ''Node.js''];
          response =
            ''HTTP/1.1 200 OK'' @ CRLF @
            ''Server: '' @ server_header @ CRLF @
            ''X-Powered-By: '' @ powered_by @ CRLF @
            ''Content-Type: text/html; charset=utf-8'' @ CRLF @
            ''Content-Length: '' @ show_nat (length (env_encode e body)) @ CRLF @
            ''Connection: close'' @ CRLF @
            CRLF @
            body
      in writer_close (writer_write (env_encode e response) w))"

text \<open>
  The honeypot object: the shared logger, the port and the per-client histories.
  \<open>handle_client\<close> returns the object as the session leaves it and the writer. Whatever
  is raised after the request was read is caught by the handler, which closes the
  writer.
\<close>

record http_honeypot =
  http_logger :: logger
  http_port :: int
  http_history :: "(string dict list) dict"

definition http_handle_client ::
  "env \<Rightarrow> string \<Rightarrow> string \<Rightarrow> http_honeypot \<Rightarrow> http_honeypot \<times> writer" where
  "http_handle_client e client_ip reader self =
     (case fst (read_http_request e reader) of
        None \<Rightarrow> (self, writer_close new_writer)
      | Some (method, path, headers, body) \<Rightarrow>
          let detected_tool = detect_tool headers body (Some path) method;
              ts = env_utcnow e 0;
              hist = dict_get (http_history self) client_ip [] @ [[(''timestamp'', ts)]];
              self1 = self\<lparr>http_history := dict_set (http_history self) client_ip hist\<rparr>
          in
            (case classify_client (env_fromisoformat e) hist detected_tool of
               Inl err \<Rightarrow> (self1, writer_close new_writer)
             | Inr classification \<Rightarrow>
                 let response_body = fst (generate_response_body e path detected_tool);
                     picks = snd (generate_response_body e path detected_tool);
                     logged = log_event (env_dumps e) (env_utcnow e 1) (env_db_ok e 0)
                                ''http'' client_ip (http_port self1) method (Some path) body
                                (Some headers) detected_tool (Some classification) (Some [])
                                (http_logger self1);
                     self2 = self1\<lparr>http_logger := snd logged\<rparr>
                 in
                   (case fst logged of
                      Inl err \<Rightarrow> (self2, writer_close new_writer)
                    | Inr u \<Rightarrow> (self2, send_response e picks response_body headers new_writer))))"

text \<open>
  The request line as the specification words it: it is there, it decodes, and it has at
  least a method and a path. A history table is in order when every entry of every
  client carries a timestamp; the handler writes no other entries. \<open>http_event\<close> is the
  event the handler logs for a parsed request.
\<close>

definition request_line :: "env \<Rightarrow> string \<Rightarrow> (string \<times> string) option" where
  "request_line e reader =
     (if fst (readline reader) = [] then None
      else
        (case env_decode e (fst (readline reader)) of
           None \<Rightarrow> None
         | Some text \<Rightarrow>
             (case split (strip text) of
                method # path # others \<Rightarrow> Some (method, path)
              | _ \<Rightarrow> None)))"

definition history_ok :: "(string dict list) dict \<Rightarrow> bool" where
  "history_ok history =
     list_all (\<lambda>entry. list_all (\<lambda>event. map_of event ''timestamp'' \<noteq> None) (snd entry)) history"

definition http_event ::
  "env \<Rightarrow> string \<Rightarrow> int \<Rightarrow> string \<Rightarrow> string \<Rightarrow> string dict \<Rightarrow> string option \<Rightarrow> string
     \<Rightarrow> (string dict, json dict) event" where
  "http_event e client_ip port method path headers body classification =
     \<lparr>ev_timestamp = env_utcnow e 1, ev_service = ''http'', ev_ip = client_ip, ev_port = port,
      ev_request_type = method, ev_path = Some path, ev_payload = body, ev_headers = headers,
      ev_tool = detect_tool headers body (Some path) method,
      ev_classification = Some classification, ev_meta = []\<rparr>"





section \<open>honeypot_core/ssh_honeypot.py\<close>















section \<open>honeypot_core/ftp_honeypot.py\<close>


















section \<open>Properties of the fingerprint engine\<close>

lemma lower_Nil_iff: "lower s = [] \<longleftrightarrow> s = []"
  by (simp add: lower_def)

lemma match_signatures_table: "match_signatures scanner_signatures s = signature_table s"
  by (simp add: scanner_signatures_def signature_table_def)

lemma dict_get_Nil: "dict_get [] k dflt = dflt"
  by (simp add: dict_get_def)

lemma path_payload_rules:
  "(case path_rule path of Some tool \<Rightarrow> Some tool | None \<Rightarrow> payload_rule payload)
     = later_rules payload path"
  by (cases path; cases payload)
     (auto simp: path_rule_def payload_rule_def later_rules_def sql_keywords_def Let_def)

lemma contains_Nil_iff: "contains p [] \<longleftrightarrow> p = []"
  by simp

lemma lower_Nil: "lower [] = []"
  by (simp add: lower_def)

lemma signature_table_Nil: "signature_table [] = None"
  by (simp add: signature_table_def)

lemma detect_tool_refines:
  "detect_tool headers payload path request_type = detect_tool_spec headers payload path"
proof (cases "headers = []")
  case True
  then show ?thesis
    by (cases payload)
       (auto simp: detect_tool_def detect_tool_spec_def Let_def dict_get_Nil
          match_signatures_table path_payload_rules signature_table_Nil lower_Nil lower_Nil_iff
          cong: option.case_cong)
next
  case False
  then show ?thesis
    by (cases payload)
       (auto simp: detect_tool_def detect_tool_spec_def Let_def
          match_signatures_table path_payload_rules signature_table_Nil lower_Nil lower_Nil_iff
          cong: option.case_cong)
qed

lemma startswith_map: "startswith s p \<Longrightarrow> startswith (map f s) (map f p)"
  by (induction s p rule: startswith.induct) auto

lemma contains_map: "contains p s \<Longrightarrow> contains (map f p) (map f s)"
proof (induction s)
  case Nil
  then show ?case by simp
next
  case (Cons c cs)
  then show ?case using startswith_map [of "c # cs" p f] by auto
qed

lemma lower_sqlmap: "lower ''sqlmap'' = ''sqlmap''"
  by (simp add: lower_def lower_char_def)

lemma contains_lower: "contains ''sqlmap'' ua \<Longrightarrow> contains ''sqlmap'' (lower ua)"
  using contains_map [of "''sqlmap''" ua lower_char] lower_sqlmap by (simp add: lower_def)

text \<open>
  C4. \<open>detect_tool\<close> computes what the ordered rules say, whatever the request type: a
  User-Agent value that is present (not empty) is lower-cased and looked up in the
  signature table; without one, a present payload is lower-cased and looked up in the
  same table; when the table gives nothing, a present path is matched against the three
  path rules, then a present payload against the SQL keywords, and otherwise the result
  is \<open>None\<close>. In particular a User-Agent that contains \<open>sqlmap\<close>, in any letter case,
  gives \<open>sqlmap\<close>.
\<close>

theorem detect_tool_precedence:
  "detect_tool headers payload path request_type = detect_tool_spec headers payload path \<and>
   (contains ''sqlmap'' (dict_get headers ''User-Agent'' []) \<or>
    contains ''sqlmap'' (lower (dict_get headers ''User-Agent'' []))
      \<longrightarrow> detect_tool headers payload path request_type = Some ''sqlmap'')"
proof (intro conjI impI)
  show "detect_tool headers payload path request_type = detect_tool_spec headers payload path"
    by (rule detect_tool_refines)
next
  assume "contains ''sqlmap'' (dict_get headers ''User-Agent'' []) \<or>
    contains ''sqlmap'' (lower (dict_get headers ''User-Agent'' []))"
  then have c: "contains ''sqlmap'' (lower (dict_get headers ''User-Agent'' []))"
    using contains_lower by blast
  then have ne: "dict_get headers ''User-Agent'' [] \<noteq> []"
    by (auto simp: lower_def)
  from c have "signature_table (lower (dict_get headers ''User-Agent'' [])) = Some ''sqlmap''"
    by (simp add: signature_table_def)
  with ne show "detect_tool headers payload path request_type = Some ''sqlmap''"
    by (simp add: detect_tool_refines detect_tool_spec_def)
qed

theorem detect_tool_precedence_witness:
  "contains ''sqlmap''
     (lower (dict_get [(''Host'', ''x''), (''User-Agent'', ''SQLMap/1.7'')] ''User-Agent'' [])) \<and>
   detect_tool [(''Host'', ''x''), (''User-Agent'', ''SQLMap/1.7'')]
     (Some ''nikto'') (Some ''/wp-login.php'') ''GET'' = Some ''sqlmap''"
proof -
  have h: "contains ''sqlmap''
     (lower (dict_get [(''Host'', ''x''), (''User-Agent'', ''SQLMap/1.7'')] ''User-Agent'' []))"
    by code_simp
  show ?thesis
    using h detect_tool_precedence [of "[(''Host'', ''x''), (''User-Agent'', ''SQLMap/1.7'')]"
      "Some ''nikto''" "Some ''/wp-login.php''" "''GET''"]
    by blast
qed

text \<open>
  C9. The request type has no influence on \<open>detect_tool\<close>: two calls that differ only in
  it return the same result. The call of the SSH and FTP handlers, with an empty header
  dictionary, no payload and no path, returns \<open>None\<close> for every verb.
\<close>

theorem detect_tool_ignores_request_type:
  "detect_tool headers payload path request_type = detect_tool headers payload path request_type' \<and>
   detect_tool [] None None request_type = None"
  by (simp add: detect_tool_def scanner_signatures_def path_rule_def payload_rule_def)

section \<open>Properties of the classification engine\<close>

lemma dt_lt_Some_iff: "dt_lt a b = Some r \<longleftrightarrow> is_naive a = is_naive b \<and> r = (instant a < instant b)"
  by (cases a; cases b) auto

lemma dt_lt_None_iff: "dt_lt a b = None \<longleftrightarrow> is_naive a \<noteq> is_naive b"
  by (cases a; cases b) auto

lemma dt_sub_eq: "dt_sub a b = (if is_naive a = is_naive b then Some (instant a - instant b) else None)"
  by (cases a; cases b) auto

lemma retag_self: "retag m (instant m) = m"
  by (cases m) (auto simp: retag_def)

lemma Max_insert_absorb:
  "finite A \<Longrightarrow> b \<in> A \<Longrightarrow> (a::int) \<le> b \<Longrightarrow> Max (insert a A) = Max A"
proof -
  assume f: "finite A" and b: "b \<in> A" and le: "a \<le> b"
  then have ne: "A \<noteq> {}" by auto
  have "b \<le> Max A" using f b by simp
  then have "a \<le> Max A" using le by simp
  moreover have "Max (insert a A) = max a (Max A)" using f ne by (rule Max_insert)
  ultimately show ?thesis by (simp add: max_def)
qed

lemma Min_insert_absorb:
  "finite A \<Longrightarrow> b \<in> A \<Longrightarrow> (b::int) \<le> a \<Longrightarrow> Min (insert a A) = Min A"
proof -
  assume f: "finite A" and b: "b \<in> A" and le: "b \<le> a"
  then have ne: "A \<noteq> {}" by auto
  have "Min A \<le> b" using f b by simp
  then have "Min A \<le> a" using le by simp
  moreover have "Min (insert a A) = min a (Min A)" using f ne by (rule Min_insert)
  ultimately show ?thesis by (simp add: min_def)
qed

lemma max_loop_Some:
  "list_all (\<lambda>x. is_naive x = is_naive m) xs \<Longrightarrow>
   max_loop m xs = Some (retag m (Max (set (map instant (m # xs)))))"
proof (induction xs arbitrary: m)
  case Nil
  then show ?case by (simp add: retag_self)
next
  case (Cons x xs)
  then have k: "is_naive x = is_naive m" and r: "list_all (\<lambda>y. is_naive y = is_naive m) xs"
    by auto
  have lt: "dt_lt m x = Some (instant m < instant x)"
    using k by (simp add: dt_lt_Some_iff)
  show ?case
  proof (cases "instant m < instant x")
    case True
    have "max_loop x xs = Some (retag x (Max (set (map instant (x # xs)))))"
      using Cons.IH [of x] r k by simp
    moreover have "Max (insert (instant m) (insert (instant x) (instant ` set xs)))
        = Max (insert (instant x) (instant ` set xs))"
      using True by (intro Max_insert_absorb [where b = "instant x"]) auto
    moreover have "retag x = retag m" using k by (auto simp: retag_def fun_eq_iff)
    ultimately show ?thesis using lt True by simp
  next
    case False
    have "max_loop m xs = Some (retag m (Max (set (map instant (m # xs)))))"
      using Cons.IH [of m] r by simp
    moreover have "Max (insert (instant x) (insert (instant m) (instant ` set xs)))
        = Max (insert (instant m) (instant ` set xs))"
      using False by (intro Max_insert_absorb [where b = "instant m"]) auto
    ultimately show ?thesis using lt False by (simp add: insert_commute)
  qed
qed

lemma max_loop_None:
  "\<not> list_all (\<lambda>x. is_naive x = is_naive m) xs \<Longrightarrow> max_loop m xs = None"
proof (induction xs arbitrary: m)
  case Nil
  then show ?case by simp
next
  case (Cons x xs)
  show ?case
  proof (cases "is_naive x = is_naive m")
    case True
    then have lt: "dt_lt m x = Some (instant m < instant x)"
      by (simp add: dt_lt_Some_iff)
    from True Cons.prems have r: "\<not> list_all (\<lambda>y. is_naive y = is_naive m) xs" by simp
    then have "max_loop m xs = None" by (rule Cons.IH)
    moreover have "max_loop x xs = None" using Cons.IH [of x] r True by simp
    ultimately show ?thesis using lt by simp
  next
    case False
    then have "dt_lt m x = None" by (auto simp: dt_lt_None_iff)
    then show ?thesis by simp
  qed
qed


lemma min_loop_Some:
  "list_all (\<lambda>x. is_naive x = is_naive m) xs \<Longrightarrow>
   min_loop m xs = Some (retag m (Min (set (map instant (m # xs)))))"
proof (induction xs arbitrary: m)
  case Nil
  then show ?case by (simp add: retag_self)
next
  case (Cons x xs)
  then have k: "is_naive x = is_naive m" and r: "list_all (\<lambda>y. is_naive y = is_naive m) xs"
    by auto
  have lt: "dt_lt x m = Some (instant x < instant m)"
    using k by (simp add: dt_lt_Some_iff)
  show ?case
  proof (cases "instant x < instant m")
    case True
    have "min_loop x xs = Some (retag x (Min (set (map instant (x # xs)))))"
      using Cons.IH [of x] r k by simp
    moreover have "Min (insert (instant m) (insert (instant x) (instant ` set xs)))
        = Min (insert (instant x) (instant ` set xs))"
      using True by (intro Min_insert_absorb [where b = "instant x"]) auto
    moreover have "retag x = retag m" using k by (auto simp: retag_def fun_eq_iff)
    ultimately show ?thesis using lt True by simp
  next
    case False
    have "min_loop m xs = Some (retag m (Min (set (map instant (m # xs)))))"
      using Cons.IH [of m] r by simp
    moreover have "Min (insert (instant x) (insert (instant m) (instant ` set xs)))
        = Min (insert (instant m) (instant ` set xs))"
      using False by (intro Min_insert_absorb [where b = "instant m"]) auto
    ultimately show ?thesis using lt False by (simp add: insert_commute)
  qed
qed

lemma comparable_Cons:
  "comparable (m # xs) \<longleftrightarrow> list_all (\<lambda>x. is_naive x = is_naive m) xs"
  by (cases "is_naive m") (auto simp: comparable_def list_all_iff)

lemma instant_retag: "instant (retag m v) = v"
  by (simp add: retag_def)

lemma is_naive_retag: "is_naive (retag m v) = is_naive m"
  by (simp add: retag_def)

lemma span_test:
  "tms \<noteq> [] \<Longrightarrow>
   (case py_max tms of
      None \<Rightarrow> None
    | Some hi \<Rightarrow>
        (case py_min tms of
           None \<Rightarrow> None
         | Some lo \<Rightarrow> (case dt_sub hi lo of None \<Rightarrow> None | Some d \<Rightarrow> Some (d < 2000000))))
     = (if comparable tms then Some (span_micros tms < 2000000) else None)"
proof (cases tms)
  case Nil
  assume "tms \<noteq> []"
  with Nil show ?thesis by simp
next
  case (Cons m xs)
  show ?thesis
  proof (cases "comparable tms")
    case True
    then have a: "list_all (\<lambda>x. is_naive x = is_naive m) xs"
      using Cons by (simp add: comparable_Cons)
    show ?thesis
      using True Cons max_loop_Some [OF a] min_loop_Some [OF a]
      by (simp add: dt_sub_eq instant_retag is_naive_retag span_micros_def)
  next
    case False
    then have "\<not> list_all (\<lambda>x. is_naive x = is_naive m) xs"
      using Cons by (simp add: comparable_Cons)
    then have "max_loop m xs = None" by (rule max_loop_None)
    then show ?thesis using False Cons by simp
  qed
qed

lemma those_map_Some:
  "those (map f xs) = (if list_all (\<lambda>x. f x \<noteq> None) xs then Some (map (the \<circ> f) xs) else None)"
  by (induction xs) (auto split: option.splits)

lemma within_two_seconds_eq:
  "stamps \<noteq> [] \<Longrightarrow>
   within_two_seconds fromisoformat stamps =
     (if list_all (\<lambda>t. fromisoformat t \<noteq> None) stamps \<and>
         comparable (map (the \<circ> fromisoformat) stamps)
      then Some (span_micros (map (the \<circ> fromisoformat) stamps) < 2000000) else None)"
proof -
  assume ne: "stamps \<noteq> []"
  then have ne': "map (the \<circ> fromisoformat) stamps \<noteq> []" by simp
  show ?thesis
    unfolding within_two_seconds_def those_map_Some
    using span_test [OF ne'] by (simp split: if_splits)
qed

lemma timestamps_of_iff:
  "timestamps_of entries = Inr stamps \<longleftrightarrow>
   map (\<lambda>event. map_of event ''timestamp'') entries = map Some stamps"
proof (induction entries arbitrary: stamps)
  case Nil
  then show ?case by auto
next
  case (Cons e es)
  show ?case
  proof (cases "map_of e ''timestamp''")
    case None
    then show ?thesis by (cases stamps) auto
  next
    case (Some t)
    then show ?thesis using Cons.IH
      by (cases stamps; cases "timestamps_of es") auto
  qed
qed

lemma length_last5: "5 \<le> length history \<Longrightarrow> length (last5 history) = 5"
  by (simp add: last5_def)

text \<open>
  C3. The rules of \<open>classify_client\<close> in their order. A detected tool that is not empty
  gives \<open>scanner\<close> whatever the history holds. Without one, and with \<open>stamps\<close> the
  timestamps of the last five entries, the result is \<open>bot\<close> exactly when the history has
  at least five entries and those five timestamps parse and span less than two seconds,
  and \<open>human\<close> in every other case: fewer than five entries, a span of two seconds or
  more, or a timestamp that does not parse, which is never an error.
\<close>

theorem classify_client_rules:
  "(truthy tool \<longrightarrow> classify_client fromisoformat history tool = Inr ''scanner'') \<and>
   (\<not> truthy tool \<and> map (\<lambda>event. map_of event ''timestamp'') (last5 history) = map Some stamps \<longrightarrow>
      classify_client fromisoformat history tool
        = Inr (if 5 \<le> length history \<and> rapid fromisoformat stamps then ''bot'' else ''human'')) \<and>
   (\<not> truthy tool \<and> map (\<lambda>event. map_of event ''timestamp'') (last5 history) = map Some stamps \<and>
    list_ex (\<lambda>t. fromisoformat t = None) stamps \<longrightarrow>
      classify_client fromisoformat history tool = Inr ''human'')"
proof -
  have scanner: "classify_client fromisoformat history tool = Inr ''scanner''" if "truthy tool"
    using that by (simp add: classify_client_def)
  have main: "classify_client fromisoformat history tool
        = Inr (if 5 \<le> length history \<and> rapid fromisoformat stamps then ''bot'' else ''human'')"
    if nt: "\<not> truthy tool"
      and st: "map (\<lambda>event. map_of event ''timestamp'') (last5 history) = map Some stamps"
  proof (cases "5 \<le> length history")
    case False
    then show ?thesis using nt by (simp add: classify_client_def)
  next
    case True
    have ts: "timestamps_of (last5 history) = Inr stamps"
      using st by (simp add: timestamps_of_iff)
    have "length stamps = 5"
      using length_last5 [OF True] st by (metis length_map)
    then have ne: "stamps \<noteq> []" by auto
    show ?thesis
      using True nt ts within_two_seconds_eq [OF ne, of fromisoformat]
      by (simp add: classify_client_def rapid_def)
  qed
  have parse: "classify_client fromisoformat history tool = Inr ''human''"
    if nt: "\<not> truthy tool"
      and st: "map (\<lambda>event. map_of event ''timestamp'') (last5 history) = map Some stamps"
      and bad: "list_ex (\<lambda>t. fromisoformat t = None) stamps"
  proof -
    have "\<not> rapid fromisoformat stamps"
      using bad by (auto simp: rapid_def list_ex_iff list_all_iff)
    then show ?thesis using main [OF nt st] by simp
  qed
  show ?thesis using scanner main parse by blast
qed

theorem classify_client_rules_witness:
  "truthy (Some ''nmap'') \<and>
   classify_client example_clock (map stamp garbled_stamps) (Some ''nmap'') = Inr ''scanner'' \<and>
   \<not> truthy None \<and>
   map (\<lambda>event. map_of event ''timestamp'') (last5 (stamp ''2023-12-31T09:00:00'' # map stamp rapid_stamps))
     = map Some rapid_stamps \<and>
   classify_client example_clock (stamp ''2023-12-31T09:00:00'' # map stamp rapid_stamps) None = Inr ''bot'' \<and>
   classify_client example_clock (map stamp slow_stamps) None = Inr ''human'' \<and>
   list_ex (\<lambda>t. example_clock t = None) garbled_stamps \<and>
   classify_client example_clock (map stamp garbled_stamps) None = Inr ''human''"
proof -
  have a: "truthy (Some ''nmap'')" by simp
  have b: "\<not> truthy None" by simp
  have c: "map (\<lambda>event. map_of event ''timestamp'')
             (last5 (stamp ''2023-12-31T09:00:00'' # map stamp rapid_stamps)) = map Some rapid_stamps"
    by (simp add: rapid_stamps_def last5_def stamp_def)
  have d: "map (\<lambda>event. map_of event ''timestamp'') (last5 (map stamp slow_stamps)) = map Some slow_stamps"
    by (simp add: slow_stamps_def last5_def stamp_def)
  have e: "map (\<lambda>event. map_of event ''timestamp'') (last5 (map stamp garbled_stamps)) = map Some garbled_stamps"
    by (simp add: garbled_stamps_def last5_def stamp_def)
  have f: "list_ex (\<lambda>t. example_clock t = None) garbled_stamps"
    by (simp add: garbled_stamps_def example_clock_def)
  have g: "rapid example_clock rapid_stamps"
    by (simp add: rapid_def rapid_stamps_def example_clock_def comparable_def span_micros_def)
  have h: "\<not> rapid example_clock slow_stamps"
    by (simp add: rapid_def slow_stamps_def example_clock_def comparable_def span_micros_def)
  have l: "5 \<le> length (stamp ''2023-12-31T09:00:00'' # map stamp rapid_stamps)"
    by (simp add: rapid_stamps_def)
  have r1: "classify_client example_clock (map stamp garbled_stamps) (Some ''nmap'') = Inr ''scanner''"
    using a classify_client_rules [of "Some ''nmap''" example_clock "map stamp garbled_stamps" garbled_stamps]
    by blast
  have r2: "classify_client example_clock (stamp ''2023-12-31T09:00:00'' # map stamp rapid_stamps) None
      = Inr (if 5 \<le> length (stamp ''2023-12-31T09:00:00'' # map stamp rapid_stamps) \<and>
                rapid example_clock rapid_stamps then ''bot'' else ''human'')"
    using b c classify_client_rules [of None example_clock
        "stamp ''2023-12-31T09:00:00'' # map stamp rapid_stamps" rapid_stamps]
    by blast
  have r3: "classify_client example_clock (map stamp slow_stamps) None
      = Inr (if 5 \<le> length (map stamp slow_stamps) \<and> rapid example_clock slow_stamps
             then ''bot'' else ''human'')"
    using b d classify_client_rules [of None example_clock "map stamp slow_stamps" slow_stamps]
    by blast
  have r4: "classify_client example_clock (map stamp garbled_stamps) None = Inr ''human''"
    using b e f classify_client_rules [of None example_clock "map stamp garbled_stamps" garbled_stamps]
    by blast
  from r2 g l have r2': "classify_client example_clock
      (stamp ''2023-12-31T09:00:00'' # map stamp rapid_stamps) None = Inr ''bot''"
    by (simp only: simp_thms if_True)
  from r3 h have r3': "classify_client example_clock (map stamp slow_stamps) None = Inr ''human''"
    by (simp only: simp_thms if_False)
  show ?thesis
    using a b c f r1 r2' r3' r4 by blast
qed

text \<open>
  An entry without the \<open>timestamp\<close> key among the last five is outside these rules: the
  lookup raises \<open>KeyError\<close> before the \<open>try\<close> is entered.
\<close>

lemma classify_client_missing_key:
  "classify_client fromisoformat (map stamp rapid_stamps @ [[]]) None = Inl KeyError"
  by (simp add: classify_client_def last5_def rapid_stamps_def stamp_def)

section \<open>Properties of the event store\<close>
































section \<open>Properties of the HTTP handler\<close>

lemma read_http_request_eq:
  "fst (read_http_request e reader) =
     (case request_line e reader of
        None \<Rightarrow> None
      | Some mp \<Rightarrow>
          Some (fst mp, snd mp, fst (read_headers e (snd (readline reader)) []),
            fst (read_body e (fst (read_headers e (snd (readline reader)) []))
              (snd (read_headers e (snd (readline reader)) [])))))"
proof (cases "fst (readline reader) = []")
  case True
  then show ?thesis by (simp add: read_http_request_def request_line_def)
next
  case line: False
  show ?thesis
  proof (cases "env_decode e (fst (readline reader))")
    case None
    then show ?thesis using line by (simp add: read_http_request_def request_line_def)
  next
    case (Some decoded)
    show ?thesis
    proof (cases "split (strip decoded)")
      case Nil
      then show ?thesis using line Some
        by (simp add: read_http_request_def request_line_def)
    next
      case (Cons a l)
      show ?thesis
      proof (cases l)
        case Nil
        then show ?thesis using line Some Cons
          by (simp add: read_http_request_def request_line_def)
      next
        case (Cons b l')
        then show ?thesis using line Some \<open>split (strip decoded) = a # l\<close>
          by (simp add: read_http_request_def request_line_def Let_def)
      qed
    qed
  qed
qed


lemma read_http_request_Some:
  "fst (read_http_request e reader) = Some (method, path, headers, body) \<Longrightarrow>
   request_line e reader = Some (method, path) \<and>
   headers = fst (read_headers e (snd (readline reader)) []) \<and>
   body = fst (read_body e headers (snd (read_headers e (snd (readline reader)) [])))"
  unfolding read_http_request_eq by (cases "request_line e reader") auto


lemma timestamps_of_ok:
  "list_all (\<lambda>event. map_of event ''timestamp'' \<noteq> None) entries \<Longrightarrow>
   \<exists>stamps. timestamps_of entries = Inr stamps"
  by (induction entries) auto

lemma classify_client_ok:
  assumes "list_all (\<lambda>event. map_of event ''timestamp'' \<noteq> None) history"
  shows "\<exists>label. classify_client f history tool = Inr label"
proof -
  have "list_all (\<lambda>event. map_of event ''timestamp'' \<noteq> None) (last5 history)"
    using assms by (auto simp: last5_def list_all_iff dest: in_set_dropD)
  then obtain stamps where "timestamps_of (last5 history) = Inr stamps"
    using timestamps_of_ok by blast
  then show ?thesis
    by (auto simp: classify_client_def split: option.splits bool.splits)
qed

lemma dict_get_ok:
  "history_ok history \<Longrightarrow>
   list_all (\<lambda>event. map_of event ''timestamp'' \<noteq> None) (dict_get history ip [])"
proof -
  assume ok: "history_ok history"
  show ?thesis
  proof (cases "map_of history ip")
    case None
    then show ?thesis by (simp add: dict_get_def)
  next
    case (Some h)
    then have "(ip, h) \<in> set history" by (rule map_of_SomeD)
    then have "list_all (\<lambda>event. map_of event ''timestamp'' \<noteq> None) h"
      using ok by (auto simp: history_ok_def list_all_iff)
    then show ?thesis using Some by (simp add: dict_get_def)
  qed
qed

lemma log_event_events:
  "lg_events (snd (log_event dumps now ok service ip port request_type path payload
      (Some headers) tool classification (Some []) lg))
   = lg_events lg @
      [\<lparr>ev_timestamp = now, ev_service = service, ev_ip = ip, ev_port = port,
        ev_request_type = request_type, ev_path = path, ev_payload = payload,
        ev_headers = headers, ev_tool = tool, ev_classification = classification,
        ev_meta = []\<rparr>]"
  by (simp add: log_event_def Let_def)


lemma http_unparsed:
  "fst (read_http_request e reader) = None \<Longrightarrow>
   http_handle_client e client_ip reader self = (self, writer_close new_writer)"
  unfolding http_handle_client_def by (simp only: option.case)

lemma w_closed_send_response: "w_closed (send_response e k body hs w)"
  by (simp add: send_response_def writer_close_def Let_def)

lemma http_parsed_eq:
  assumes r: "fst (read_http_request e reader) = Some (method, path, headers, body)"
    and c: "classify_client (env_fromisoformat e)
              (dict_get (http_history self) client_ip [] @ [[(''timestamp'', env_utcnow e 0)]])
              (detect_tool headers body (Some path) method) = Inr label"
  shows "http_handle_client e client_ip reader self =
     (let self1 = self\<lparr>http_history := dict_set (http_history self) client_ip
                    (dict_get (http_history self) client_ip [] @ [[(''timestamp'', env_utcnow e 0)]])\<rparr>;
          logged = log_event (env_dumps e) (env_utcnow e 1) (env_db_ok e 0)
                     ''http'' client_ip (http_port self) method (Some path) body
                     (Some headers) (detect_tool headers body (Some path) method) (Some label) (Some [])
                     (http_logger self)
      in (self1\<lparr>http_logger := snd logged\<rparr>,
          case fst logged of
            Inl err \<Rightarrow> writer_close new_writer
          | Inr u \<Rightarrow> send_response e (snd (generate_response_body e path (detect_tool headers body (Some path) method)))
                      (fst (generate_response_body e path (detect_tool headers body (Some path) method)))
                      headers new_writer))"
  unfolding http_handle_client_def r
  by (simp add: c Let_def split: sum.splits)

lemma http_parsed:
  assumes r: "fst (read_http_request e reader) = Some (method, path, headers, body)"
    and c: "classify_client (env_fromisoformat e)
              (dict_get (http_history self) client_ip [] @ [[(''timestamp'', env_utcnow e 0)]])
              (detect_tool headers body (Some path) method) = Inr label"
  shows "lg_events (http_logger (fst (http_handle_client e client_ip reader self)))
           = lg_events (http_logger self)
               @ [http_event e client_ip (http_port self) method path headers body label] \<and>
         http_history (fst (http_handle_client e client_ip reader self))
           = dict_set (http_history self) client_ip
               (dict_get (http_history self) client_ip [] @ [[(''timestamp'', env_utcnow e 0)]]) \<and>
         w_closed (snd (http_handle_client e client_ip reader self))"
  unfolding http_parsed_eq [OF r c]
  by (simp add: Let_def log_event_events http_event_def w_closed_send_response writer_close_def
      split: sum.splits)

lemma http_classified:
  assumes "history_ok (http_history self)"
  shows "\<exists>label. classify_client (env_fromisoformat e)
              (dict_get (http_history self) client_ip [] @ [[(''timestamp'', ts)]]) tool = Inr label"
proof -
  have "list_all (\<lambda>event. map_of event ''timestamp'' \<noteq> None)
          (dict_get (http_history self) client_ip [] @ [[(''timestamp'', ts)]])"
    using dict_get_ok [OF assms, of client_ip] by simp
  then show ?thesis by (rule classify_client_ok)
qed








lemma history_ok_dict_set:
  "history_ok h \<Longrightarrow> list_all (\<lambda>event. map_of event ''timestamp'' \<noteq> None) v \<Longrightarrow>
   history_ok (dict_set h k v)"
  by (induction h) (auto simp: history_ok_def)

text \<open>The handler keeps the history table in order, and a new honeypot starts with an empty one.\<close>

lemma history_ok_kept:
  assumes ok: "history_ok (http_history self)"
  shows "history_ok (http_history (fst (http_handle_client e client_ip reader self)))"
proof (cases "fst (read_http_request e reader)")
  case None
  then have "http_handle_client e client_ip reader self = (self, writer_close new_writer)"
    by (rule http_unparsed)
  then show ?thesis using ok by simp
next
  case (Some request)
  obtain m p hs b where req: "request = (m, p, hs, b)"
    by (cases request) auto
  have r: "fst (read_http_request e reader) = Some (m, p, hs, b)"
    using Some req by simp
  obtain label where
    c: "classify_client (env_fromisoformat e)
          (dict_get (http_history self) client_ip [] @ [[(''timestamp'', env_utcnow e 0)]])
          (detect_tool hs b (Some p) m) = Inr label"
    using http_classified [OF ok] by blast
  have h: "http_history (fst (http_handle_client e client_ip reader self))
        = dict_set (http_history self) client_ip
            (dict_get (http_history self) client_ip [] @ [[(''timestamp'', env_utcnow e 0)]])"
    using http_parsed [OF r c] by blast
  have "list_all (\<lambda>event. map_of event ''timestamp'' \<noteq> None)
          (dict_get (http_history self) client_ip [] @ [[(''timestamp'', env_utcnow e 0)]])"
    using dict_get_ok [OF ok, of client_ip] by simp
  then show ?thesis unfolding h using ok by (intro history_ok_dict_set)
qed

section \<open>Properties of the SSH handler\<close>













section \<open>Properties of the FTP handler\<close>











end
